theory Spec2Isabelle
  imports Complex_Main "HOL-Library.Word"
begin

unbundle bit_operations_syntax

section \<open>Python string operations used by the pipeline\<close>

text \<open>
  Python strings are modelled as \<^typ>\<open>string\<close>; a character stands for the code point
  with the same number (0 to 255). \<^verbatim>\<open>str.strip()\<close> and \<^verbatim>\<open>str.split()\<close> without
  arguments treat the code points for which \<^verbatim>\<open>str.isspace()\<close> holds as white space:
  in this range 9 to 13, 28 to 32, 133 and 160.
\<close>

definition is_space :: "char \<Rightarrow> bool" where
  "is_space c \<longleftrightarrow> (of_char c :: nat) \<in> {9, 10, 11, 12, 13, 28, 29, 30, 31, 32, 133, 160}"

definition lstrip :: "string \<Rightarrow> string" where
  "lstrip s = dropWhile is_space s"

definition rstrip :: "string \<Rightarrow> string" where
  "rstrip s = rev (dropWhile is_space (rev s))"

definition strip :: "string \<Rightarrow> string" where
  "strip s = rstrip (lstrip s)"

text \<open>\<^verbatim>\<open>s.split()\<close>: the maximal runs of characters that are not white space.\<close>

fun split_ws_from :: "string \<Rightarrow> string \<Rightarrow> string list" where
  "split_ws_from cur [] = (if cur = [] then [] else [cur])"
| "split_ws_from cur (c # cs) =
     (if is_space c then (if cur = [] then split_ws_from [] cs else cur # split_ws_from [] cs)
      else split_ws_from (cur @ [c]) cs)"

definition split_ws :: "string \<Rightarrow> string list" where
  "split_ws s = split_ws_from [] s"

text \<open>\<^verbatim>\<open>s.split(d)\<close> for a one-character separator: empty fields are kept.\<close>

fun split_on_from :: "char \<Rightarrow> string \<Rightarrow> string \<Rightarrow> string list" where
  "split_on_from d cur [] = [cur]"
| "split_on_from d cur (c # cs) =
     (if c = d then cur # split_on_from d [] cs else split_on_from d (cur @ [c]) cs)"

definition split_on :: "char \<Rightarrow> string \<Rightarrow> string list" where
  "split_on d s = split_on_from d [] s"

text \<open>\<^verbatim>\<open>sep.join(parts)\<close>.\<close>

fun join_with :: "string \<Rightarrow> string list \<Rightarrow> string" where
  "join_with sep [] = []"
| "join_with sep [x] = x"
| "join_with sep (x # y # ys) = x @ sep @ join_with sep (y # ys)"

text \<open>\<^verbatim>\<open>s.startswith(p)\<close>.\<close>

definition startswith :: "string \<Rightarrow> string \<Rightarrow> bool" where
  "startswith s p \<longleftrightarrow> take (length p) s = p"

text \<open>
  \<^verbatim>\<open>s.lower()\<close>: the letters A to Z and the upper-case letters of the Latin-1 block
  (192 to 222 without the multiplication sign 215) move up by 32.
\<close>

definition lower_char :: "char \<Rightarrow> char" where
  "lower_char c =
     (let n = (of_char c :: nat)
      in if (65 \<le> n \<and> n \<le> 90) \<or> (192 \<le> n \<and> n \<le> 222 \<and> n \<noteq> 215) then char_of (n + 32) else c)"

definition lower :: "string \<Rightarrow> string" where
  "lower s = map lower_char s"

text \<open>\<^verbatim>\<open>s.replace(c, "")\<close> for a one-character \<^verbatim>\<open>c\<close>.\<close>

definition remove_char :: "char \<Rightarrow> string \<Rightarrow> string" where
  "remove_char c s = filter (\<lambda>x. x \<noteq> c) s"

subsection \<open>The builtin \<^verbatim>\<open>float\<close> on strings\<close>

text \<open>
  A Python float is modelled by its exact value: a rational, an infinity or not-a-number.
  Rounding to binary64 is not modelled; arithmetic on finite values is exact.
\<close>

datatype pyfloat = Fin rat | PosInf | NegInf | NaN

fun fadd :: "pyfloat \<Rightarrow> pyfloat \<Rightarrow> pyfloat" where
  "fadd (Fin a) (Fin b) = Fin (a + b)"
| "fadd NaN _ = NaN"
| "fadd _ NaN = NaN"
| "fadd PosInf NegInf = NaN"
| "fadd NegInf PosInf = NaN"
| "fadd PosInf _ = PosInf"
| "fadd NegInf _ = NegInf"
| "fadd _ PosInf = PosInf"
| "fadd _ NegInf = NegInf"

text \<open>Division by a positive constant.\<close>

fun fdiv_const :: "pyfloat \<Rightarrow> rat \<Rightarrow> pyfloat" where
  "fdiv_const (Fin a) k = Fin (a / k)"
| "fdiv_const x k = x"

text \<open>
  \<^verbatim>\<open>float(s)\<close> accepts, after stripping white space, an optional sign followed by
  \<^verbatim>\<open>inf\<close>, \<^verbatim>\<open>infinity\<close> or \<^verbatim>\<open>nan\<close> in any letter case, or by a decimal number
  \<^verbatim>\<open>[digitpart] "." digitpart | digitpart ["."]\<close> with an optional exponent
  \<^verbatim>\<open>("e" | "E") [sign] digitpart\<close>, where \<^verbatim>\<open>digitpart\<close> is \<^verbatim>\<open>digit (["_"] digit)*\<close>.
  Anything else raises \<^verbatim>\<open>ValueError\<close>, modelled as \<^const>\<open>None\<close>.
\<close>

definition is_digit :: "char \<Rightarrow> bool" where
  "is_digit c \<longleftrightarrow> 48 \<le> (of_char c :: nat) \<and> (of_char c :: nat) \<le> 57"

definition digit_val :: "char \<Rightarrow> nat" where
  "digit_val c = of_char c - 48"

fun digitpart_ok :: "string \<Rightarrow> bool" where
  "digitpart_ok [] = False"
| "digitpart_ok [c] = is_digit c"
| "digitpart_ok (c # d # cs) =
     (is_digit c \<and> (if d = CHR ''_'' then digitpart_ok cs else digitpart_ok (d # cs)))"

definition digits_value :: "string \<Rightarrow> nat" where
  "digits_value s = foldl (\<lambda>a c. 10 * a + digit_val c) 0 (filter is_digit s)"

definition digits_count :: "string \<Rightarrow> nat" where
  "digits_count s = length (filter is_digit s)"

definition parse_mantissa :: "string \<Rightarrow> rat option" where
  "parse_mantissa m =
     (if CHR ''.'' \<notin> set m then
        (if digitpart_ok m then Some (of_nat (digits_value m)) else None)
      else
        (let ip = takeWhile (\<lambda>c. c \<noteq> CHR ''.'') m;
             fp = tl (dropWhile (\<lambda>c. c \<noteq> CHR ''.'') m)
         in if (ip = [] \<or> digitpart_ok ip) \<and> (fp = [] \<or> digitpart_ok fp) \<and> \<not> (ip = [] \<and> fp = [])
            then Some (of_nat (digits_value ip) + of_nat (digits_value fp) / 10 ^ digits_count fp)
            else None))"

definition parse_exponent :: "string \<Rightarrow> int option" where
  "parse_exponent e =
     (case e of
        [] \<Rightarrow> None
      | c # cs \<Rightarrow>
          if c = CHR ''-'' then (if digitpart_ok cs then Some (- int (digits_value cs)) else None)
          else if c = CHR ''+'' then (if digitpart_ok cs then Some (int (digits_value cs)) else None)
          else (if digitpart_ok e then Some (int (digits_value e)) else None))"

definition is_exp_char :: "char \<Rightarrow> bool" where
  "is_exp_char c \<longleftrightarrow> c = CHR ''e'' \<or> c = CHR ''E''"

definition parse_number :: "string \<Rightarrow> rat option" where
  "parse_number s =
     (let m = takeWhile (\<lambda>c. \<not> is_exp_char c) s;
          r = dropWhile (\<lambda>c. \<not> is_exp_char c) s
      in case parse_mantissa m of
           None \<Rightarrow> None
         | Some v \<Rightarrow>
             (if r = [] then Some v
              else case parse_exponent (tl r) of
                     None \<Rightarrow> None
                   | Some x \<Rightarrow> Some (if 0 \<le> x then v * 10 ^ nat x else v / 10 ^ nat (- x))))"

definition parse_unsigned :: "string \<Rightarrow> pyfloat option" where
  "parse_unsigned s =
     (if lower s = ''inf'' \<or> lower s = ''infinity'' then Some PosInf
      else if lower s = ''nan'' then Some NaN
      else map_option Fin (parse_number s))"

fun fneg :: "pyfloat \<Rightarrow> pyfloat" where
  "fneg (Fin a) = Fin (- a)"
| "fneg PosInf = NegInf"
| "fneg NegInf = PosInf"
| "fneg NaN = NaN"

definition py_float :: "string \<Rightarrow> pyfloat option" where
  "py_float s =
     (case strip s of
        [] \<Rightarrow> None
      | c # cs \<Rightarrow>
          if c = CHR ''-'' then map_option fneg (parse_unsigned cs)
          else if c = CHR ''+'' then parse_unsigned cs
          else parse_unsigned (c # cs))"

section \<open>Metrics parser: duration strings\<close>

text \<open>
  \<^verbatim>\<open>PrusaSlicerRunner._parse_time_string\<close>: the string is lowered, commas are removed
  and it is split at white space. A part containing \<^verbatim>\<open>h\<close> sets the hours, otherwise one
  containing \<^verbatim>\<open>m\<close> sets the minutes, otherwise one containing \<^verbatim>\<open>s\<close> sets the seconds,
  each to \<^verbatim>\<open>float\<close> of the part with that letter removed. Any exception (a
  \<^verbatim>\<open>ValueError\<close> of \<^verbatim>\<open>float\<close>) makes the function return 1.0.
\<close>

fun time_parts_loop ::
  "string list \<Rightarrow> pyfloat \<times> pyfloat \<times> pyfloat \<Rightarrow> (pyfloat \<times> pyfloat \<times> pyfloat) option" where
  "time_parts_loop [] acc = Some acc"
| "time_parts_loop (part # parts) (hours, minutes, seconds) =
     (if CHR ''h'' \<in> set part then
        (case py_float (remove_char CHR ''h'' part) of
           None \<Rightarrow> None
         | Some v \<Rightarrow> time_parts_loop parts (v, minutes, seconds))
      else if CHR ''m'' \<in> set part then
        (case py_float (remove_char CHR ''m'' part) of
           None \<Rightarrow> None
         | Some v \<Rightarrow> time_parts_loop parts (hours, v, seconds))
      else if CHR ''s'' \<in> set part then
        (case py_float (remove_char CHR ''s'' part) of
           None \<Rightarrow> None
         | Some v \<Rightarrow> time_parts_loop parts (hours, minutes, v))
      else time_parts_loop parts (hours, minutes, seconds))"

definition parse_time_string :: "string \<Rightarrow> pyfloat" where
  "parse_time_string time_str =
     (case time_parts_loop (split_ws (remove_char CHR '','' (lower time_str))) (Fin 0, Fin 0, Fin 0) of
        None \<Rightarrow> Fin 1
      | Some (hours, minutes, seconds) \<Rightarrow>
          fadd (fadd hours (fdiv_const minutes 60)) (fdiv_const seconds 3600))"

section \<open>Geometry pass: complexity score\<close>

text \<open>
  The geometry pass of \<^verbatim>\<open>PrusaSlicerRunner._analyze_stl_geometry\<close> runs the script
  \<^verbatim>\<open>analyze_stl\<close>, which skips the 80-byte header, unpacks the next four bytes as a
  little-endian unsigned integer and computes
  \<^verbatim>\<open>complexity = min(triangle_count / 10000.0, 5.0)\<close>.
  The quotient is taken in exact rational arithmetic.
\<close>

type_synonym byte = "8 word"

definition unpack_u32_le :: "byte list \<Rightarrow> nat" where
  "unpack_u32_le bs =
     unat (bs ! 0) + 256 * unat (bs ! 1) + 65536 * unat (bs ! 2) + 16777216 * unat (bs ! 3)"






section \<open>Files and exceptions\<close>

text \<open>
  An exception is represented by its text \<^verbatim>\<open>str(e)\<close>; every exception modelled here
  derives from \<^verbatim>\<open>Exception\<close>. A computation that may raise has type \<open>exn + 'a\<close>, with
  \<^const>\<open>Inl\<close> for the raised exception. \<^verbatim>\<open>try: body except Exception as e: handler\<close>
  is \<open>try_except body handler\<close>.
\<close>

type_synonym exn = string

definition try_except :: "exn + 'a \<Rightarrow> (exn \<Rightarrow> exn + 'a) \<Rightarrow> exn + 'a" where
  "try_except body handler = (case body of Inl e \<Rightarrow> handler e | Inr v \<Rightarrow> Inr v)"

text \<open>
  What a path may name: nothing; something whose metadata cannot be queried (every
  operation raises); an entry with a size that cannot be opened (no permission, a
  directory); or a regular readable file with its bytes.
\<close>

datatype file_node =
    Absent
  | Inaccessible exn
  | Unreadable nat exn
  | Regular "byte list"

text \<open>\<^verbatim>\<open>file_path.exists()\<close>, \<^verbatim>\<open>file_path.stat().st_size\<close> and \<^verbatim>\<open>open(file_path, "rb").read()\<close>.\<close>

fun path_exists :: "file_node \<Rightarrow> exn + bool" where
  "path_exists Absent = Inr False"
| "path_exists (Inaccessible e) = Inl e"
| "path_exists (Unreadable n e) = Inr True"
| "path_exists (Regular data) = Inr True"

fun stat_size :: "file_node \<Rightarrow> exn + nat" where
  "stat_size Absent = Inl ''[Errno 2] No such file or directory''"
| "stat_size (Inaccessible e) = Inl e"
| "stat_size (Unreadable n e) = Inr n"
| "stat_size (Regular data) = Inr (length data)"

fun open_rb :: "file_node \<Rightarrow> exn + byte list" where
  "open_rb Absent = Inl ''[Errno 2] No such file or directory''"
| "open_rb (Inaccessible e) = Inl e"
| "open_rb (Unreadable n e) = Inl e"
| "open_rb (Regular data) = Inr data"

text \<open>
  \<^verbatim>\<open>open(file_path, "r", encoding="utf-8", errors="ignore").read()\<close>: the bytes pass
  through Python's text layer (UTF-8 decoding that skips undecodable bytes, then
  universal-newline translation). The text layer is the parameter \<open>dec\<close>; it never raises.
\<close>

definition open_text :: "(byte list \<Rightarrow> string) \<Rightarrow> file_node \<Rightarrow> exn + string" where
  "open_text dec node = (case open_rb node of Inl e \<Rightarrow> Inl e | Inr data \<Rightarrow> Inr (dec data))"

text \<open>
  The text layer on 7-bit input: each byte is the character with the same code, and
  \<^verbatim>\<open>\r\n\<close> and \<^verbatim>\<open>\r\<close> become \<^verbatim>\<open>\n\<close>. Bytes from 128 on are skipped, as stray bytes are.
\<close>

fun decode_ascii :: "byte list \<Rightarrow> string" where
  "decode_ascii [] = []"
| "decode_ascii [b] = (if b = 13 then [CHR 0x0A] else if b < 128 then [char_of (unat b)] else [])"
| "decode_ascii (b # c # bs) =
     (if b = 13 then (if c = 10 then CHR 0x0A # decode_ascii bs else CHR 0x0A # decode_ascii (c # bs))
      else if b < 128 then char_of (unat b) # decode_ascii (c # bs)
      else decode_ascii (c # bs))"

text \<open>\<^verbatim>\<open>file_path.suffix\<close>, computed by pathlib from the final path component \<open>name\<close>.\<close>

definition path_suffix :: "string \<Rightarrow> string" where
  "path_suffix name =
     (if CHR ''.'' \<notin> set name then []
      else let i = length name - 1 - length (takeWhile (\<lambda>c. c \<noteq> CHR ''.'') (rev name))
           in if 0 < i \<and> i < length name - 1 then drop i name else [])"

section \<open>Geometry validator\<close>

text \<open>
  The second component of the validator's result. Each constructor stands for one
  message of \<^verbatim>\<open>stl_validator.py\<close>:
  \<^item> \<open>FileDoesNotExist\<close>: "File does not exist";
  \<^item> \<open>FileTooLarge n\<close>: "File too large: n bytes (max 52428800)";
  \<^item> \<open>FileTooSmall n\<close>: "File too small: n bytes (min 84)";
  \<^item> \<open>WrongExtension\<close>: "File must have .stl extension";
  \<^item> \<open>ValidationError e\<close>: "Validation error: e";
  \<^item> \<open>FailedToRead e\<close>: "Failed to read STL file: e";
  \<^item> \<open>MissingTriangleCount\<close>: "Invalid binary STL: missing triangle count";
  \<^item> \<open>NoTriangles\<close>: "STL file contains no triangles";
  \<^item> \<open>TooComplex n\<close>: "STL file too complex: n triangles (max 1,000,000)";
  \<^item> \<open>SizeMismatch x a\<close>: "Invalid binary STL: size mismatch (expected x, got a)";
  \<^item> \<open>InvalidTriangleData i\<close>: "Invalid triangle data at triangle i";
  \<^item> \<open>InvalidCoordinate w\<close>: "Invalid coordinate value: c", \<open>w\<close> the bits of \<open>c\<close>;
  \<^item> \<open>BinaryValidationError e\<close>: "Binary STL validation error: e";
  \<^item> \<open>MustStartWithSolid\<close>: "ASCII STL must start with 'solid'";
  \<^item> \<open>MustEndWithEndsolid\<close>: "ASCII STL must end with 'endsolid'";
  \<^item> \<open>IncompleteFacet n\<close>: "Incomplete facet at line n";
  \<^item> \<open>ExpectedOuterLoop n\<close>: "Expected 'outer loop' at line n";
  \<^item> \<open>ExpectedVertex n\<close>: "Expected vertex at line n";
  \<^item> \<open>InvalidVertexFormat n\<close>: "Invalid vertex format at line n";
  \<^item> \<open>InvalidVertexCoordinates n\<close>: "Invalid vertex coordinates at line n";
  \<^item> \<open>ExpectedEndloop n\<close>: "Expected 'endloop' at line n";
  \<^item> \<open>ExpectedEndfacet n\<close>: "Expected 'endfacet' at line n";
  \<^item> \<open>AsciiNoTriangles\<close>: "ASCII STL contains no triangles";
  \<^item> \<open>AsciiValidationError e\<close>: "ASCII STL validation error: e";
  \<^item> \<open>GeometryValidationError e\<close>: "Geometry validation error: e".
\<close>

datatype reason =
    FileDoesNotExist
  | FileTooLarge nat
  | FileTooSmall nat
  | WrongExtension
  | ValidationError exn
  | FailedToRead exn
  | MissingTriangleCount
  | NoTriangles
  | TooComplex nat
  | SizeMismatch nat nat
  | InvalidTriangleData nat
  | InvalidCoordinate nat
  | BinaryValidationError exn
  | MustStartWithSolid
  | MustEndWithEndsolid
  | IncompleteFacet nat
  | ExpectedOuterLoop nat
  | ExpectedVertex nat
  | InvalidVertexFormat nat
  | InvalidVertexCoordinates nat
  | ExpectedEndloop nat
  | ExpectedEndfacet nat
  | AsciiNoTriangles
  | AsciiValidationError exn
  | GeometryValidationError exn

type_synonym verdict = "bool \<times> reason option"

definition MAX_FILE_SIZE :: nat where
  "MAX_FILE_SIZE = 50 * 1024 * 1024"

definition MIN_FILE_SIZE :: nat where
  "MIN_FILE_SIZE = 84"

subsection \<open>Binary encoding\<close>

text \<open>
  \<^verbatim>\<open>struct.unpack("<3f", ...)\<close> reads IEEE 754 binary32 values. The value of the bit
  pattern \<open>w\<close> (as an unsigned 32-bit number): sign in bit 31, exponent in bits 23 to 30,
  fraction in bits 0 to 22.
\<close>

definition float32_value :: "nat \<Rightarrow> pyfloat" where
  "float32_value w =
     (let negative = (w div 2 ^ 31) mod 2 = 1;
          e = (w div 2 ^ 23) mod 256;
          m = w mod 2 ^ 23
      in if e = 255 then (if m = 0 then (if negative then NegInf else PosInf) else NaN)
         else let mag = (if e = 0 then of_nat m / 2 ^ 149
                         else of_nat (2 ^ 23 + m) * 2 ^ e / 2 ^ 150)
              in Fin (if negative then - mag else mag))"

text \<open>\<^verbatim>\<open>abs(coord) > 10000\<close>: false for not-a-number, true for both infinities.\<close>

fun coordinate_out_of_range :: "pyfloat \<Rightarrow> bool" where
  "coordinate_out_of_range (Fin r) = (\<bar>r\<bar> > 10000)"
| "coordinate_out_of_range PosInf = True"
| "coordinate_out_of_range NegInf = True"
| "coordinate_out_of_range NaN = False"

text \<open>
  The twelve numbers \<^verbatim>\<open>normal + vertex1 + vertex2 + vertex3\<close> of a 50-byte record, as bit
  patterns, in the order the loop visits them.
\<close>

definition triangle_coords :: "byte list \<Rightarrow> nat list" where
  "triangle_coords triangle_data =
     map (\<lambda>k. unpack_u32_le (take 4 (drop (4 * k) triangle_data))) [0..<12]"

text \<open>
  The loop \<^verbatim>\<open>for i in range(min(10, triangle_count))\<close>: \<open>i\<close> is the loop index, the
  second argument the number of iterations left, \<open>rest\<close> the unread part of the file.
  The handler for \<^verbatim>\<open>struct.error\<close> is unreachable, since each slice has exactly 12 bytes
  once the record has 50.
\<close>

fun check_triangles :: "nat \<Rightarrow> nat \<Rightarrow> byte list \<Rightarrow> verdict" where
  "check_triangles i 0 rest = (True, None)"
| "check_triangles i (Suc n) rest =
     (let triangle_data = take 50 rest
      in if length triangle_data \<noteq> 50 then (False, Some (InvalidTriangleData i))
         else case find (\<lambda>w. coordinate_out_of_range (float32_value w)) (triangle_coords triangle_data) of
                Some w \<Rightarrow> (False, Some (InvalidCoordinate w))
              | None \<Rightarrow> check_triangles (Suc i) n (drop 50 rest))"

definition validate_binary_stl_body :: "file_node \<Rightarrow> exn + verdict" where
  "validate_binary_stl_body node =
     (case open_rb node of
        Inl e \<Rightarrow> Inl e
      | Inr data \<Rightarrow>
          let triangle_count_bytes = take 4 (drop 80 data)
          in if length triangle_count_bytes \<noteq> 4 then Inr (False, Some MissingTriangleCount)
             else let triangle_count = unpack_u32_le triangle_count_bytes
                  in if triangle_count = 0 then Inr (False, Some NoTriangles)
                     else if triangle_count > 1000000 then Inr (False, Some (TooComplex triangle_count))
                     else let expected_size = 80 + 4 + triangle_count * 50
                          in case stat_size node of
                               Inl e \<Rightarrow> Inl e
                             | Inr actual_size \<Rightarrow>
                                 if actual_size \<noteq> expected_size
                                 then Inr (False, Some (SizeMismatch expected_size actual_size))
                                 else Inr (check_triangles 0 (min 10 triangle_count) (drop 84 data)))"

definition validate_binary_stl :: "file_node \<Rightarrow> exn + verdict" where
  "validate_binary_stl node =
     try_except (validate_binary_stl_body node) (\<lambda>e. Inr (False, Some (BinaryValidationError e)))"

subsection \<open>Text encoding\<close>

text \<open>\<^verbatim>\<open>lines = content.strip().split("\n")\<close>; the list is never empty.\<close>

definition stl_lines :: "string \<Rightarrow> string list" where
  "stl_lines content = split_on CHR 0x0A (strip content)"

text \<open>
  One pass of the loop \<^verbatim>\<open>for j in range(3)\<close> on the stripped line: the second argument
  is the line number used in the message. \<^verbatim>\<open>vertex_line.split()[1:4]\<close> never raises;
  \<^verbatim>\<open>float\<close> raising \<^verbatim>\<open>ValueError\<close> gives "Invalid vertex coordinates".
\<close>

definition check_vertex :: "string \<Rightarrow> nat \<Rightarrow> reason option" where
  "check_vertex vertex_line n =
     (if \<not> startswith vertex_line ''vertex'' then Some (ExpectedVertex n)
      else let coords = take 3 (drop 1 (split_ws vertex_line))
           in if length coords \<noteq> 3 then Some (InvalidVertexFormat n)
              else if \<exists>coord \<in> set coords. py_float coord = None
                   then Some (InvalidVertexCoordinates n)
                   else None)"

fun check_vertices :: "string list \<Rightarrow> nat \<Rightarrow> nat list \<Rightarrow> reason option" where
  "check_vertices lines i [] = None"
| "check_vertices lines i (j # js) =
     (case check_vertex (strip (lines ! (i + 2 + j))) (i + 3 + j) of
        Some r \<Rightarrow> Some r
      | None \<Rightarrow> check_vertices lines i js)"

text \<open>
  The loop \<^verbatim>\<open>while i < len(lines) - 1\<close> with its counter \<^verbatim>\<open>triangle_count\<close>. Every
  index read is below \<^verbatim>\<open>len(lines)\<close>: the facet branch reads up to \<open>i + 6\<close> only after
  the test \<^verbatim>\<open>i + 6 >= len(lines)\<close> has failed.
\<close>

function scan_facets :: "string list \<Rightarrow> nat \<Rightarrow> nat \<Rightarrow> reason + nat" where
  "scan_facets lines i triangle_count =
     (if i < length lines - 1 then
        (if startswith (strip (lines ! i)) ''facet normal'' then
           (if i + 6 \<ge> length lines then Inl (IncompleteFacet (i + 1))
            else if strip (lines ! (i + 1)) \<noteq> ''outer loop'' then Inl (ExpectedOuterLoop (i + 2))
            else case check_vertices lines i [0, 1, 2] of
                   Some r \<Rightarrow> Inl r
                 | None \<Rightarrow>
                     if strip (lines ! (i + 5)) \<noteq> ''endloop'' then Inl (ExpectedEndloop (i + 6))
                     else if strip (lines ! (i + 6)) \<noteq> ''endfacet'' then Inl (ExpectedEndfacet (i + 7))
                     else scan_facets lines (i + 7) (triangle_count + 1))
         else scan_facets lines (i + 1) triangle_count)
      else Inr triangle_count)"
  by pat_completeness auto
termination
  by (relation "measure (\<lambda>(lines, i, triangle_count). length lines - i)") auto

definition validate_ascii_content :: "string \<Rightarrow> verdict" where
  "validate_ascii_content content =
     (let lines = stl_lines content
      in if \<not> startswith (strip (lines ! 0)) ''solid'' then (False, Some MustStartWithSolid)
         else if \<not> startswith (strip (lines ! (length lines - 1))) ''endsolid''
              then (False, Some MustEndWithEndsolid)
              else case scan_facets lines 1 0 of
                     Inl r \<Rightarrow> (False, Some r)
                   | Inr triangle_count \<Rightarrow>
                       if triangle_count = 0 then (False, Some AsciiNoTriangles)
                       else if triangle_count > 1000000 then (False, Some (TooComplex triangle_count))
                       else (True, None))"

definition validate_ascii_stl_body :: "(byte list \<Rightarrow> string) \<Rightarrow> file_node \<Rightarrow> exn + verdict" where
  "validate_ascii_stl_body dec node =
     (case open_text dec node of
        Inl e \<Rightarrow> Inl e
      | Inr content \<Rightarrow> Inr (validate_ascii_content content))"

definition validate_ascii_stl :: "(byte list \<Rightarrow> string) \<Rightarrow> file_node \<Rightarrow> exn + verdict" where
  "validate_ascii_stl dec node =
     try_except (validate_ascii_stl_body dec node) (\<lambda>e. Inr (False, Some (AsciiValidationError e)))"

subsection \<open>Format dispatch, geometry and the entry point\<close>

text \<open>The bytes of \<^verbatim>\<open>b"solid"\<close>.\<close>

definition solid_bytes :: "byte list" where
  "solid_bytes = [115, 111, 108, 105, 100]"

definition validate_stl_format_body :: "(byte list \<Rightarrow> string) \<Rightarrow> file_node \<Rightarrow> exn + verdict" where
  "validate_stl_format_body dec node =
     (case open_rb node of
        Inl e \<Rightarrow> Inl e
      | Inr data \<Rightarrow>
          let header = take 80 data
          in if take (length solid_bytes) header = solid_bytes
             then validate_ascii_stl dec node
             else validate_binary_stl node)"

definition validate_stl_format :: "(byte list \<Rightarrow> string) \<Rightarrow> file_node \<Rightarrow> exn + verdict" where
  "validate_stl_format dec node =
     try_except (validate_stl_format_body dec node) (\<lambda>e. Inr (False, Some (FailedToRead e)))"

text \<open>\<^verbatim>\<open>_validate_geometry\<close> performs no check: its \<^verbatim>\<open>try\<close> block only returns.\<close>

definition validate_geometry :: "file_node \<Rightarrow> exn + verdict" where
  "validate_geometry node =
     try_except (Inr (True, None)) (\<lambda>e. Inr (False, Some (GeometryValidationError e)))"

text \<open>
  The \<^verbatim>\<open>try\<close> block of \<^verbatim>\<open>validate_file\<close>; \<open>name\<close> is the final component of
  \<^verbatim>\<open>file_path\<close>.
\<close>

definition validate_file_body :: "(byte list \<Rightarrow> string) \<Rightarrow> string \<Rightarrow> file_node \<Rightarrow> exn + verdict" where
  "validate_file_body dec name node =
     (case path_exists node of
        Inl e \<Rightarrow> Inl e
      | Inr ex \<Rightarrow>
          if \<not> ex then Inr (False, Some FileDoesNotExist)
          else case stat_size node of
                 Inl e \<Rightarrow> Inl e
               | Inr file_size \<Rightarrow>
                   if file_size > MAX_FILE_SIZE then Inr (False, Some (FileTooLarge file_size))
                   else if file_size < MIN_FILE_SIZE then Inr (False, Some (FileTooSmall file_size))
                   else if lower (path_suffix name) \<noteq> ''.stl'' then Inr (False, Some WrongExtension)
                   else case validate_stl_format dec node of
                          Inl e \<Rightarrow> Inl e
                        | Inr (is_valid, error) \<Rightarrow>
                            if \<not> is_valid then Inr (False, error)
                            else case validate_geometry node of
                                   Inl e \<Rightarrow> Inl e
                                 | Inr (is_valid, error) \<Rightarrow>
                                     if \<not> is_valid then Inr (False, error)
                                     else Inr (True, None))"

definition validate_file :: "(byte list \<Rightarrow> string) \<Rightarrow> string \<Rightarrow> file_node \<Rightarrow> exn + verdict" where
  "validate_file dec name node =
     try_except (validate_file_body dec name node) (\<lambda>e. Inr (False, Some (ValidationError e)))"

text \<open>
  Specification side of the binary check: none of the twelve numbers of any of the first
  \<open>min 10 n\<close> records (record \<open>j\<close> starts at byte \<open>84 + 50 * j\<close>) is out of range.
\<close>

definition sampled_coordinates_ok :: "byte list \<Rightarrow> nat \<Rightarrow> bool" where
  "sampled_coordinates_ok data n \<longleftrightarrow>
     (\<forall>j < min 10 n. \<forall>w \<in> set (triangle_coords (take 50 (drop (50 * j + 84) data))).
        \<not> coordinate_out_of_range (float32_value w))"

text \<open>
  A binary file of 134 bytes that declares one triangle and whose first number is 32768.0
  (bit pattern 47000000 hexadecimal, stored little-endian).
\<close>

definition one_triangle_far_away :: "byte list" where
  "one_triangle_far_away = replicate 80 0 @ [1, 0, 0, 0] @ [0, 0, 0, 71] @ replicate 46 0"

text \<open>The same with every number 0.0, and one that is a record short for its count of 2.\<close>

definition one_triangle_at_origin :: "byte list" where
  "one_triangle_at_origin = replicate 80 0 @ [1, 0, 0, 0] @ replicate 50 0"

definition two_declared_one_present :: "byte list" where
  "two_declared_one_present = replicate 80 0 @ [2, 0, 0, 0] @ replicate 50 0"

text \<open>
  A size-exact binary file declaring one triangle at the origin whose 80-byte header is
  \<^verbatim>\<open>solid\<close> followed by 75 blanks.
\<close>

definition solid_headed_binary :: "byte list" where
  "solid_headed_binary = solid_bytes @ replicate 75 32 @ [1, 0, 0, 0] @ replicate 50 0"

section \<open>Slicing engine runner\<close>

text \<open>
  The world the worker acts on: the job workspaces that exist under the service's
  temporary directory (by job id), the number of live temporary directories of the runner,
  the engine subprocesses started so far with how each ended, the result ids committed to
  the database, the history of the task's result record (oldest first), and the two local
  variables of the task that its handlers read, as "is bound".
\<close>

datatype proc_end = Exited int | Killed

text \<open>
  The states of a Celery result record. \<open>STARTED\<close> is reported because the application is
  configured with \<^verbatim>\<open>task_track_started=True\<close>; \<open>PROGRESS\<close> carries the \<^verbatim>\<open>meta\<close>
  dictionary's entries \<^verbatim>\<open>progress\<close> and \<^verbatim>\<open>message\<close>; \<open>SUCCESS\<close> the returned value;
  \<open>FAILURE\<close> the text of the exception; \<open>OTHER\<close> any further state name.
\<close>

datatype celery_state =
    PENDING
  | STARTED
  | PROGRESS "nat option" "string option"
  | SUCCESS string
  | FAILURE exn
  | OTHER string

record world =
  workspaces :: "string set"
  live_tempdirs :: nat
  engine_runs :: "proc_end list"
  saved_results :: "string list"
  states :: "celery_state list"
  service_bound :: bool
  db_bound :: bool

type_synonym 'a action = "world \<Rightarrow> (exn + 'a) \<times> world"

text \<open>Sequencing of statements: the first exception ends the sequence.\<close>

definition then_do :: "'a action \<Rightarrow> ('a \<Rightarrow> 'b action) \<Rightarrow> 'b action" where
  "then_do m f = (\<lambda>w. case m w of (Inl e, w') \<Rightarrow> (Inl e, w') | (Inr a, w') \<Rightarrow> f a w')"

definition raise :: "exn \<Rightarrow> 'a action" where
  "raise e = (\<lambda>w. (Inl e, w))"

definition return :: "'a \<Rightarrow> 'a action" where
  "return a = (\<lambda>w. (Inr a, w))"

text \<open>A library call that either raises the given exception or succeeds without effect.\<close>

definition may_fail :: "exn option \<Rightarrow> unit action" where
  "may_fail err = (case err of Some e \<Rightarrow> raise e | None \<Rightarrow> return ())"

record print_metrics =
  filament_grams :: pyfloat
  print_time_hours :: pyfloat
  volume_mm3 :: pyfloat
  complexity :: pyfloat
  supports_required :: bool

text \<open>
  How the engine and the runner's file operations behave in one analysis: whether
  creating the temporary directory, or copying the input and writing the configuration,
  raises; whether the subprocess can be started; after how many seconds it exits by
  itself (\<open>None\<close>: never); its exit code and diagnostic text; whether it leaves the output
  file; and the metrics the two parsing passes (which catch their own exceptions) yield.
\<close>

record engine =
  tempdir_error :: "exn option"
  setup_error :: "exn option"
  spawn_error :: "exn option"
  run_seconds :: "nat option"
  returncode :: int
  stderr :: string
  writes_output :: bool
  metrics :: print_metrics

text \<open>
  The exceptions \<^verbatim>\<open>_run_slicer\<close> tells apart: \<^verbatim>\<open>subprocess.TimeoutExpired\<close> and any
  other \<^verbatim>\<open>Exception\<close> with its text.
\<close>

datatype raised = TimeoutExpired | Error exn

text \<open>
  \<^verbatim>\<open>subprocess.run(cmd, capture_output=True, text=True, timeout=t)\<close> as Python's
  standard library documents it: the child is started; if it has not exited after \<open>t\<close>
  seconds it is killed and waited for, and \<^verbatim>\<open>TimeoutExpired\<close> is raised; otherwise the
  exit code and the captured diagnostic text are returned.
\<close>

definition subprocess_run :: "nat \<Rightarrow> engine \<Rightarrow> world \<Rightarrow> (raised + int \<times> string) \<times> world" where
  "subprocess_run t eng w =
     (case spawn_error eng of
        Some e \<Rightarrow> (Inl (Error e), w)
      | None \<Rightarrow>
          (case run_seconds eng of
             None \<Rightarrow> (Inl TimeoutExpired, w\<lparr>engine_runs := engine_runs w @ [Killed]\<rparr>)
           | Some d \<Rightarrow>
               if t < d then (Inl TimeoutExpired, w\<lparr>engine_runs := engine_runs w @ [Killed]\<rparr>)
               else (Inr (returncode eng, stderr eng),
                     w\<lparr>engine_runs := engine_runs w @ [Exited (returncode eng)]\<rparr>)))"

text \<open>The \<^verbatim>\<open>try\<close> block of \<^verbatim>\<open>_run_slicer\<close>, then its two handlers.\<close>

definition run_slicer_body :: "engine \<Rightarrow> world \<Rightarrow> (raised + unit) \<times> world" where
  "run_slicer_body eng w =
     (case subprocess_run 300 eng w of
        (Inl x, w') \<Rightarrow> (Inl x, w')
      | (Inr (code, err), w') \<Rightarrow>
          if code \<noteq> 0 then (Inl (Error (''PrusaSlicer failed: '' @ err)), w')
          else if \<not> writes_output eng then (Inl (Error ''PrusaSlicer did not generate output file''), w')
          else (Inr (), w'))"

definition run_slicer :: "engine \<Rightarrow> unit action" where
  "run_slicer eng w =
     (case run_slicer_body eng w of
        (Inl TimeoutExpired, w') \<Rightarrow> (Inl ''PrusaSlicer analysis timed out'', w')
      | (Inl (Error e), w') \<Rightarrow> (Inl (''Docker execution failed: '' @ e), w')
      | (Inr v, w') \<Rightarrow> (Inr v, w'))"

text \<open>
  \<^verbatim>\<open>PrusaSlicerRunner.analyze_stl\<close>: the \<^verbatim>\<open>with tempfile.TemporaryDirectory()\<close> block
  removes its directory however it is left; every exception is re-raised with the prefix
  "Slicer analysis error: ".
\<close>

definition slicer_analyze_stl :: "engine \<Rightarrow> print_metrics action" where
  "slicer_analyze_stl eng w =
     (case tempdir_error eng of
        Some e \<Rightarrow> (Inl (''Slicer analysis error: '' @ e), w)
      | None \<Rightarrow>
          (case then_do (may_fail (setup_error eng)) (\<lambda>_.
                then_do (run_slicer eng) (\<lambda>_.
                return (metrics eng)))
                  (w\<lparr>live_tempdirs := live_tempdirs w + 1\<rparr>) of
             (Inl e, w') \<Rightarrow>
               (Inl (''Slicer analysis error: '' @ e), w'\<lparr>live_tempdirs := live_tempdirs w' - 1\<rparr>)
           | (Inr m, w') \<Rightarrow> (Inr m, w'\<lparr>live_tempdirs := live_tempdirs w' - 1\<rparr>)))"

section \<open>Job orchestration\<close>

text \<open>
  What the task's collaborators do in one run: for each progress value, whether
  \<^verbatim>\<open>update_state\<close> raises; whether opening the database session raises; the result of
  the file query (an exception, no record, or the stored path); whether constructing the
  service raises; whether the stored file exists; the pair returned by
  \<^verbatim>\<open>_validate_stl_file\<close>; whether creating the workspace directory or copying the file
  into it raises; the engine; whether the commit raises; and the id given to the result.
\<close>

record env =
  update_error :: "nat \<Rightarrow> exn option"
  get_db_error :: "exn option"
  file_query :: "exn + string option"
  service_error :: "exn option"
  stored_file_exists :: bool
  validation :: "bool \<times> string option"
  mkdir_error :: "exn option"
  copy_error :: "exn option"
  slicer :: engine
  commit_error :: "exn option"
  new_result_id :: string

definition update_state :: "env \<Rightarrow> nat \<Rightarrow> string \<Rightarrow> unit action" where
  "update_state ev p msg w =
     (case update_error ev p of
        Some e \<Rightarrow> (Inl e, w)
      | None \<Rightarrow> (Inr (), w\<lparr>states := states w @ [PROGRESS (Some p) (Some msg)]\<rparr>))"

text \<open>\<^verbatim>\<open>str(x)\<close> for an optional string.\<close>

definition str_opt :: "string option \<Rightarrow> string" where
  "str_opt x = (case x of None \<Rightarrow> ''None'' | Some s \<Rightarrow> s)"

text \<open>
  \<^verbatim>\<open>AnalysisService._prepare_analysis_workspace\<close>: the directory exists from the
  \<^verbatim>\<open>mkdir\<close> on, also when the copy raises.
\<close>

definition prepare_analysis_workspace :: "env \<Rightarrow> string \<Rightarrow> unit action" where
  "prepare_analysis_workspace ev job_id =
     then_do (may_fail (mkdir_error ev)) (\<lambda>_.
     then_do (\<lambda>w. (Inr (), w\<lparr>workspaces := insert job_id (workspaces w)\<rparr>)) (\<lambda>_.
     may_fail (copy_error ev)))"

text \<open>\<^verbatim>\<open>shutil.rmtree(workspace, ignore_errors=True)\<close>, taken to remove the directory.\<close>

definition rmtree :: "string \<Rightarrow> unit action" where
  "rmtree job_id w = (Inr (), w\<lparr>workspaces := workspaces w - {job_id}\<rparr>)"

text \<open>
  The \<^verbatim>\<open>try\<close> block of \<^verbatim>\<open>analyze_stl_task\<close>, written as three consecutive parts:
  up to the construction of the service, from there to the verdict of the validator, and
  the rest.
\<close>

definition task_after_validation :: "env \<Rightarrow> string \<Rightarrow> string action" where
  "task_after_validation ev job_id =
     then_do (update_state ev 30 ''Preparing analysis workspace...'') (\<lambda>_.
     then_do (prepare_analysis_workspace ev job_id) (\<lambda>_.
     then_do (update_state ev 50 ''Running PrusaSlicer analysis...'') (\<lambda>_.
     then_do (slicer_analyze_stl (slicer ev)) (\<lambda>analysis_result.
     then_do (update_state ev 80 ''Saving analysis results...'') (\<lambda>_.
     then_do (may_fail (commit_error ev)) (\<lambda>_.
     then_do (\<lambda>w. (Inr (), w\<lparr>saved_results := saved_results w @ [new_result_id ev]\<rparr>)) (\<lambda>_.
     then_do (rmtree job_id) (\<lambda>_.
     then_do (update_state ev 100 ''Analysis completed'') (\<lambda>_.
     return (new_result_id ev))))))))))"

definition task_with_service :: "env \<Rightarrow> string \<Rightarrow> string \<Rightarrow> string action" where
  "task_with_service ev job_id storage_path =
     then_do (update_state ev 20 ''Validating STL file...'') (\<lambda>_.
       if \<not> stored_file_exists ev then raise (''File not found at '' @ storage_path)
       else then_do (return (validation ev)) (\<lambda>(is_valid, error_msg).
              if \<not> is_valid then raise (''Invalid STL file: '' @ str_opt error_msg)
              else task_after_validation ev job_id))"

definition task_body :: "env \<Rightarrow> string \<Rightarrow> string \<Rightarrow> string action" where
  "task_body ev job_id file_id =
     then_do (update_state ev 10 ''Initializing analysis...'') (\<lambda>_.
     then_do (may_fail (get_db_error ev)) (\<lambda>_.
     then_do (\<lambda>w. (Inr (), w\<lparr>db_bound := True\<rparr>)) (\<lambda>_.
     then_do (\<lambda>w. (file_query ev, w)) (\<lambda>file_record.
       case file_record of
         None \<Rightarrow> raise (''File '' @ file_id @ '' not found'')
       | Some storage_path \<Rightarrow>
           then_do (may_fail (service_error ev)) (\<lambda>_.
           then_do (\<lambda>w. (Inr (), w\<lparr>service_bound := True\<rparr>)) (\<lambda>_.
           task_with_service ev job_id storage_path))))))"

text \<open>
  The \<^verbatim>\<open>except Exception\<close> handler: its clean-up runs in a \<^verbatim>\<open>try\<close> of its own with a
  bare \<^verbatim>\<open>except: pass\<close>, so when \<^verbatim>\<open>service\<close> is not bound the \<^verbatim>\<open>NameError\<close> is
  swallowed and nothing is removed. The \<^verbatim>\<open>finally\<close> clause calls \<^verbatim>\<open>db.close()\<close>, which
  raises in place of the pending exception when \<^verbatim>\<open>db\<close> is not bound.
\<close>

definition cleanup_on_error :: "string \<Rightarrow> world \<Rightarrow> world" where
  "cleanup_on_error job_id w =
     (if service_bound w
      then (if job_id \<in> workspaces w then snd (rmtree job_id w) else w)
      else w)"

definition analyze_stl_task :: "env \<Rightarrow> string \<Rightarrow> string \<Rightarrow> string action" where
  "analyze_stl_task ev job_id file_id w =
     (let (r, w') = task_body ev job_id file_id (w\<lparr>service_bound := False, db_bound := False\<rparr>);
          (r', w'') = (case r of
                         Inr v \<Rightarrow> (Inr v, w')
                       | Inl e \<Rightarrow> (Inl (''Analysis failed: '' @ e), cleanup_on_error job_id w'))
      in if db_bound w'' then (r', w'')
         else (Inl ''cannot access local variable 'db' where it is not associated with a value'', w''))"

text \<open>
  One delivery of the job to a worker: Celery records \<open>STARTED\<close>, runs the task and
  records \<open>SUCCESS\<close> with the returned value or \<open>FAILURE\<close> with the exception.
\<close>

definition run_job :: "env \<Rightarrow> string \<Rightarrow> string \<Rightarrow> world \<Rightarrow> world" where
  "run_job ev job_id file_id w =
     (case analyze_stl_task ev job_id file_id (w\<lparr>states := states w @ [STARTED]\<rparr>) of
        (Inr result_id, w') \<Rightarrow> w'\<lparr>states := states w' @ [SUCCESS result_id]\<rparr>
      | (Inl e, w') \<Rightarrow> w'\<lparr>states := states w' @ [FAILURE e]\<rparr>)"

subsection \<open>Status queries\<close>

record analysis_status =
  job_id :: string
  status :: string
  progress :: nat
  message :: string
  result_id :: "string option"
  error :: "string option"


subsection \<open>Assertions about actions\<close>





subsection \<open>Sample runs\<close>

text \<open>
  A world with no workspace in which the job has just been queued; an engine that exits
  with code 0 after 42 seconds and leaves its output; the same engine needing 301
  seconds; collaborators that all succeed around a given engine; and the same with a
  validator that rejects the file.
\<close>

definition idle_world :: world where
  "idle_world =
     \<lparr>workspaces = {}, live_tempdirs = 0, engine_runs = [], saved_results = [],
      states = [PENDING], service_bound = False, db_bound = False\<rparr>"

definition quick_engine :: engine where
  "quick_engine =
     \<lparr>tempdir_error = None, setup_error = None, spawn_error = None, run_seconds = Some 42,
      returncode = 0, stderr = [], writes_output = True,
      metrics = \<lparr>filament_grams = Fin 12, print_time_hours = Fin 2, volume_mm3 = Fin 100,
                 complexity = Fin 1, supports_required = False\<rparr>\<rparr>"

definition slow_engine :: engine where
  "slow_engine = quick_engine\<lparr>run_seconds := Some 301\<rparr>"

definition smooth_env :: "engine \<Rightarrow> env" where
  "smooth_env eng =
     \<lparr>update_error = (\<lambda>p. None), get_db_error = None, file_query = Inr (Some ''uploads/part.stl''),
      service_error = None, stored_file_exists = True, validation = (True, None),
      mkdir_error = None, copy_error = None, slicer = eng, commit_error = None,
      new_result_id = ''result-1''\<rparr>"


subsection \<open>Assertions about the engine and the reported progress\<close>

text \<open>
  \<open>exceeds_timeout t eng\<close>: the engine subprocess starts and has not exited after \<open>t\<close>
  seconds. \<open>reaches_engine ev\<close>: every step of the task before the subprocess is started
  succeeds. \<open>reaches_validation ev\<close>: every step before the validator's verdict succeeds.
\<close>

definition exceeds_timeout :: "nat \<Rightarrow> engine \<Rightarrow> bool" where
  "exceeds_timeout t eng \<longleftrightarrow>
     spawn_error eng = None \<and> (case run_seconds eng of None \<Rightarrow> True | Some d \<Rightarrow> t < d)"

definition reaches_validation :: "env \<Rightarrow> bool" where
  "reaches_validation ev \<longleftrightarrow>
     update_error ev 10 = None \<and> get_db_error ev = None
     \<and> (case file_query ev of Inr (Some p) \<Rightarrow> True | _ \<Rightarrow> False)
     \<and> service_error ev = None \<and> update_error ev 20 = None \<and> stored_file_exists ev"

definition reaches_engine :: "env \<Rightarrow> bool" where
  "reaches_engine ev \<longleftrightarrow>
     reaches_validation ev \<and> fst (validation ev)
     \<and> update_error ev 30 = None \<and> mkdir_error ev = None \<and> copy_error ev = None
     \<and> update_error ev 50 = None
     \<and> tempdir_error (slicer ev) = None \<and> setup_error (slicer ev) = None"

text \<open>\<open>starts_at_most k m\<close>: the action starts at most \<open>k\<close> engine subprocesses.\<close>

definition starts_at_most :: "nat \<Rightarrow> 'a action \<Rightarrow> bool" where
  "starts_at_most k m \<longleftrightarrow>
     (\<forall>w. \<exists>new. engine_runs (snd (m w)) = engine_runs w @ new \<and> length new \<le> k)"




subsection \<open>Well-formed text geometry\<close>

text \<open>
  Specification side of the text check. \<open>padded body l\<close>: the line \<open>l\<close> is \<open>body\<close> with
  white space before and after. A coordinate is a text without white space that
  \<^verbatim>\<open>float\<close> accepts. A face block is seven lines: the normal declaration, the opening
  loop marker, three vertex lines, the closing loop marker and the closing face marker.
  The first line of the file opens the solid, the last one closes it. \<open>remove_line n ls\<close>
  is the list \<open>ls\<close> without its line at index \<open>n\<close>.
\<close>

definition padded :: "string \<Rightarrow> string \<Rightarrow> bool" where
  "padded body l \<longleftrightarrow> (\<exists>a b. l = a @ body @ b \<and> (\<forall>c \<in> set a \<union> set b. is_space c))"

definition float_token :: "string \<Rightarrow> bool" where
  "float_token t \<longleftrightarrow> py_float t \<noteq> None \<and> (\<forall>c \<in> set t. \<not> is_space c)"

definition normal_line :: "string \<Rightarrow> bool" where
  "normal_line l \<longleftrightarrow>
     (\<exists>x y z. float_token x \<and> float_token y \<and> float_token z
        \<and> padded (join_with '' '' [''facet'', ''normal'', x, y, z]) l)"

definition vertex_line :: "string \<Rightarrow> bool" where
  "vertex_line l \<longleftrightarrow>
     (\<exists>x y z. float_token x \<and> float_token y \<and> float_token z
        \<and> padded (join_with '' '' [''vertex'', x, y, z]) l)"

definition facet_block :: "string list \<Rightarrow> bool" where
  "facet_block ls \<longleftrightarrow>
     (\<exists>n ol v1 v2 v3 el ef. ls = [n, ol, v1, v2, v3, el, ef]
        \<and> normal_line n \<and> padded ''outer loop'' ol
        \<and> vertex_line v1 \<and> vertex_line v2 \<and> vertex_line v3
        \<and> padded ''endloop'' el \<and> padded ''endfacet'' ef)"

definition solid_open :: "string \<Rightarrow> bool" where
  "solid_open l \<longleftrightarrow> (\<exists>a name. l = a @ ''solid'' @ name \<and> (\<forall>c \<in> set a. is_space c))"

definition solid_close :: "string \<Rightarrow> bool" where
  "solid_close l \<longleftrightarrow> (\<exists>a name. l = a @ ''endsolid'' @ name \<and> (\<forall>c \<in> set a. is_space c))"

definition remove_line :: "nat \<Rightarrow> 'a list \<Rightarrow> 'a list" where
  "remove_line n ls = take n ls @ drop (Suc n) ls"

text \<open>
  A text file with two face blocks, and the same file without the normal declaration of
  its first block (the line at index 1).
\<close>

definition two_facets :: string where
  "two_facets = join_with [CHR 0x0A]
     [''solid wedge'',
      '' facet normal 0 0 1'',
      ''  outer loop'',
      ''   vertex 0 0 0'',
      ''   vertex 1 0 0'',
      ''   vertex 0 1 0'',
      ''  endloop'',
      '' endfacet'',
      '' facet normal 0 0 -1'',
      ''  outer loop'',
      ''   vertex 0 0 0'',
      ''   vertex 0 1e0 0'',
      ''   vertex 1.5 0 0'',
      ''  endloop'',
      '' endfacet'',
      ''endsolid wedge'',
      '''']"

definition two_facets_first_normal_removed :: string where
  "two_facets_first_normal_removed = join_with [CHR 0x0A] (remove_line 1 (stl_lines two_facets))"

text \<open>The two-block file without the second vertex line of its first block (index 4).\<close>

definition two_facets_vertex_removed :: string where
  "two_facets_vertex_removed = join_with [CHR 0x0A] (remove_line 4 (stl_lines two_facets))"

section \<open>Verified properties\<close>



subsection \<open>Splitting and joining\<close>




















text \<open>
  Claim C5 (what the code does). A duration string in which no part contains \<open>h\<close>,
  \<open>m\<close> or \<open>s\<close> leaves the three initial zeros untouched and raises nothing, so the parser
  returns 0.0; the default 1.0 is returned only when \<^verbatim>\<open>float\<close> raises on a part that
  contains one of the letters.
\<close>

theorem parse_time_string_without_token_is_zero:
  "parse_time_string ''12:30:45'' = Fin 0
   \<and> parse_time_string [] = Fin 0
   \<and> parse_time_string ''30mins'' = Fin 1"
  by (intro conjI; code_simp)

subsection \<open>Binary validation\<close>

lemma check_triangles_accepts_iff:
  "50 * n \<le> length rest \<Longrightarrow>
   (check_triangles i n rest = (True, None)) =
   (\<forall>j < n. \<forall>w \<in> set (triangle_coords (take 50 (drop (50 * j) rest))).
      \<not> coordinate_out_of_range (float32_value w))"
proof (induction n arbitrary: i rest)
  case 0
  then show ?case by simp
next
  case (Suc n)
  let ?P = "\<lambda>w. coordinate_out_of_range (float32_value w)"
  let ?Q = "\<lambda>j. \<forall>w \<in> set (triangle_coords (take 50 (drop (50 * j) rest))). \<not> ?P w"
  from Suc.prems have len: "length (take 50 rest) = 50" by simp
  from Suc.prems have rest': "50 * n \<le> length (drop 50 rest)" by simp
  have shift: "drop (50 * j) (drop 50 rest) = drop (50 * Suc j) rest" for j
    by (simp add: add.commute)
  have all: "(\<forall>j < Suc n. ?Q j) = (?Q 0 \<and> (\<forall>j < n. ?Q (Suc j)))"
    by (auto simp: less_Suc_eq_0_disj)
  show ?case
  proof (cases "find ?P (triangle_coords (take 50 rest))")
    case None
    then have q0: "?Q 0" by (simp add: find_None_iff)
    have "check_triangles i (Suc n) rest = check_triangles (Suc i) n (drop 50 rest)"
      using len None by (simp add: Let_def)
    also have "(\<dots> = (True, None)) = (\<forall>j < n. ?Q (Suc j))"
      using Suc.IH [OF rest', of "Suc i"] unfolding shift .
    finally show ?thesis using q0 unfolding all by simp
  next
    case (Some w)
    then have "\<not> ?Q 0" by (auto simp: find_Some_iff)
    moreover have "check_triangles i (Suc n) rest = (False, Some (InvalidCoordinate w))"
      using len Some by (simp add: Let_def)
    ultimately show ?thesis unfolding all by simp
  qed
qed

lemma check_triangles_rejects:
  "50 * n \<le> length rest \<Longrightarrow> check_triangles i n rest \<noteq> (True, None) \<Longrightarrow>
   \<exists>w. check_triangles i n rest = (False, Some (InvalidCoordinate w))
       \<and> coordinate_out_of_range (float32_value w)"
proof (induction n arbitrary: i rest)
  case 0
  then show ?case by simp
next
  case (Suc n)
  let ?P = "\<lambda>w. coordinate_out_of_range (float32_value w)"
  from Suc.prems have len: "length (take 50 rest) = 50" by simp
  from Suc.prems have rest': "50 * n \<le> length (drop 50 rest)" by simp
  show ?case
  proof (cases "find ?P (triangle_coords (take 50 rest))")
    case None
    then have eq: "check_triangles i (Suc n) rest = check_triangles (Suc i) n (drop 50 rest)"
      using len by (simp add: Let_def)
    with Suc.prems(2) have "check_triangles (Suc i) n (drop 50 rest) \<noteq> (True, None)" by simp
    from Suc.IH [OF rest' this] show ?thesis unfolding eq .
  next
    case (Some w)
    then have "?P w" by (auto simp: find_Some_iff)
    moreover have "check_triangles i (Suc n) rest = (False, Some (InvalidCoordinate w))"
      using len Some by (simp add: Let_def)
    ultimately show ?thesis by blast
  qed
qed

lemma validate_binary_stl_regular:
  assumes "84 \<le> length data" and "n = unpack_u32_le (take 4 (drop 80 data))"
    and "0 < n" and "n \<le> 1000000"
  shows "validate_binary_stl (Regular data) =
         Inr (if length data \<noteq> 84 + n * 50 then (False, Some (SizeMismatch (84 + n * 50) (length data)))
              else check_triangles 0 (min 10 n) (drop 84 data))"
proof -
  from assms(1) have len: "length (take 4 (drop 80 data)) = 4" by simp
  have cnt: "unpack_u32_le (take 4 (drop 80 data)) = n" using assms(2) by simp
  have n0: "n \<noteq> 0" using assms(3) by simp
  have n1: "\<not> n > 1000000" using assms(4) by simp
  have "validate_binary_stl_body (Regular data) =
         Inr (if length data \<noteq> 84 + n * 50 then (False, Some (SizeMismatch (84 + n * 50) (length data)))
              else check_triangles 0 (min 10 n) (drop 84 data))"
    unfolding validate_binary_stl_body_def open_rb.simps stat_size.simps sum.case Let_def len cnt
    using n0 n1 by simp
  then show ?thesis
    unfolding validate_binary_stl_def try_except_def by simp
qed

text \<open>
  Claim C2, as amended. For a binary file with a complete count field whose declared
  count \<open>n\<close> satisfies \<open>0 < n \<le> 1000000\<close>: if the file size differs from
  \<open>84 + 50 * n\<close> the file is rejected with the size mismatch; if the size is equal, the
  file is accepted exactly when none of the numbers in the first \<open>min 10 n\<close> records is
  out of range (magnitude above 10000 or infinite), and is otherwise rejected for such a
  coordinate.
\<close>

theorem binary_size_check_then_coordinate_sample:
  assumes "84 \<le> length data" and "n = unpack_u32_le (take 4 (drop 80 data))"
    and "0 < n" and "n \<le> 1000000"
  shows "(length data \<noteq> 84 + n * 50 \<longrightarrow>
            validate_binary_stl (Regular data)
              = Inr (False, Some (SizeMismatch (84 + n * 50) (length data))))
       \<and> (length data = 84 + n * 50 \<longrightarrow>
            (if sampled_coordinates_ok data n
             then validate_binary_stl (Regular data) = Inr (True, None)
             else \<exists>w. validate_binary_stl (Regular data) = Inr (False, Some (InvalidCoordinate w))
                      \<and> coordinate_out_of_range (float32_value w)))"
proof (intro conjI impI)
  assume "length data \<noteq> 84 + n * 50"
  then show "validate_binary_stl (Regular data)
              = Inr (False, Some (SizeMismatch (84 + n * 50) (length data)))"
    using validate_binary_stl_regular [OF assms] by simp
next
  assume size: "length data = 84 + n * 50"
  then have v: "validate_binary_stl (Regular data) = Inr (check_triangles 0 (min 10 n) (drop 84 data))"
    using validate_binary_stl_regular [OF assms] by simp
  from size have room: "50 * min 10 n \<le> length (drop 84 data)" by simp
  have shift: "drop (50 * j) (drop 84 data) = drop (50 * j + 84) data" for j
    by simp
  have iff: "(check_triangles 0 (min 10 n) (drop 84 data) = (True, None)) = sampled_coordinates_ok data n"
    unfolding check_triangles_accepts_iff [OF room] shift sampled_coordinates_ok_def ..
  show "if sampled_coordinates_ok data n
        then validate_binary_stl (Regular data) = Inr (True, None)
        else \<exists>w. validate_binary_stl (Regular data) = Inr (False, Some (InvalidCoordinate w))
                 \<and> coordinate_out_of_range (float32_value w)"
  proof (cases "sampled_coordinates_ok data n")
    case True
    then show ?thesis using iff v by simp
  next
    case False
    then have "check_triangles 0 (min 10 n) (drop 84 data) \<noteq> (True, None)" using iff by simp
    from check_triangles_rejects [OF room this] False show ?thesis unfolding v by simp
  qed
qed

text \<open>
  Witness for claim C2: the theorem at a 134-byte file declaring one triangle at the
  origin (accepted) and at a file declaring two triangles but holding one (rejected).
\<close>

theorem binary_size_check_then_coordinate_sample_witness:
  "84 \<le> length one_triangle_at_origin
   \<and> unpack_u32_le (take 4 (drop 80 one_triangle_at_origin)) = 1
   \<and> length one_triangle_at_origin = 84 + 1 * 50
   \<and> sampled_coordinates_ok one_triangle_at_origin 1
   \<and> validate_binary_stl (Regular one_triangle_at_origin) = Inr (True, None)
   \<and> 84 \<le> length two_declared_one_present
   \<and> unpack_u32_le (take 4 (drop 80 two_declared_one_present)) = 2
   \<and> length two_declared_one_present \<noteq> 84 + 2 * 50
   \<and> validate_binary_stl (Regular two_declared_one_present) = Inr (False, Some (SizeMismatch 184 134))"
proof -
  have l1: "84 \<le> length one_triangle_at_origin"
    by (simp add: one_triangle_at_origin_def)
  have c1: "1 = unpack_u32_le (take 4 (drop 80 one_triangle_at_origin))"
    by (simp add: one_triangle_at_origin_def unpack_u32_le_def)
  have s1: "length one_triangle_at_origin = 84 + 1 * 50"
    by (simp add: one_triangle_at_origin_def)
  have ok: "sampled_coordinates_ok one_triangle_at_origin 1"
    by (simp add: sampled_coordinates_ok_def one_triangle_at_origin_def triangle_coords_def
        unpack_u32_le_def float32_value_def upt_rec)
  have l2: "84 \<le> length two_declared_one_present"
    by (simp add: two_declared_one_present_def)
  have c2: "2 = unpack_u32_le (take 4 (drop 80 two_declared_one_present))"
    by (simp add: two_declared_one_present_def unpack_u32_le_def)
  have s2: "length two_declared_one_present = 134"
    by (simp add: two_declared_one_present_def)
  have p1: "0 < (1::nat)" and q1: "(1::nat) \<le> 1000000" by simp_all
  have p2: "0 < (2::nat)" and q2: "(2::nat) \<le> 1000000" by simp_all
  note t1 = binary_size_check_then_coordinate_sample [OF l1 c1 p1 q1]
  note t2 = binary_size_check_then_coordinate_sample [OF l2 c2 p2 q2]
  have a: "validate_binary_stl (Regular one_triangle_at_origin) = Inr (True, None)"
    using t1 s1 ok by simp
  have b: "validate_binary_stl (Regular two_declared_one_present) = Inr (False, Some (SizeMismatch 184 134))"
    using t2 s2 by simp
  show ?thesis
    using l1 c1 [symmetric] s1 ok a l2 c2 [symmetric] s2 b by simp
qed

text \<open>
  Counterexample to claim C2 as stated: a file whose size equals \<open>80 + 4 + 1 * 50\<close> for
  its declared count of 1 is rejected, because its first number is 32768.0.
\<close>

theorem binary_size_equality_counterexample:
  "unpack_u32_le (take 4 (drop 80 one_triangle_far_away)) = 1
   \<and> length one_triangle_far_away = 80 + 4 + 1 * 50
   \<and> validate_binary_stl (Regular one_triangle_far_away)
       = Inr (False, Some (InvalidCoordinate 1191182336))
   \<and> float32_value 1191182336 = Fin 32768"
  by (simp add: validate_binary_stl_def validate_binary_stl_body_def try_except_def Let_def
      one_triangle_far_away_def unpack_u32_le_def triangle_coords_def float32_value_def upt_rec)

subsection \<open>Entry point and dispatch\<close>

lemma try_except_returns:
  "(\<And>e. \<exists>v. handler e = Inr v) \<Longrightarrow> \<exists>v. try_except body handler = Inr v"
  by (cases body) (auto simp: try_except_def)

text \<open>
  Claim C9. \<^verbatim>\<open>validate_file\<close> returns a pair for every text layer, file name and
  file-system state and never raises; an exception raised inside its \<^verbatim>\<open>try\<close> block, or
  inside the block of the format, binary or text check, becomes the rejection
  \<open>(False, message)\<close> of that function's handler.
\<close>

theorem validate_file_never_raises:
  "(\<exists>is_valid error. validate_file dec name node = Inr (is_valid, error))
   \<and> (\<forall>e. validate_file_body dec name node = Inl e \<longrightarrow>
          validate_file dec name node = Inr (False, Some (ValidationError e)))
   \<and> (\<forall>e. validate_stl_format_body dec node = Inl e \<longrightarrow>
          validate_stl_format dec node = Inr (False, Some (FailedToRead e)))
   \<and> (\<forall>e. validate_binary_stl_body node = Inl e \<longrightarrow>
          validate_binary_stl node = Inr (False, Some (BinaryValidationError e)))
   \<and> (\<forall>e. validate_ascii_stl_body dec node = Inl e \<longrightarrow>
          validate_ascii_stl dec node = Inr (False, Some (AsciiValidationError e)))"
proof (intro conjI allI impI)
  have "\<exists>v. validate_file dec name node = Inr v"
    unfolding validate_file_def by (rule try_except_returns) blast
  then show "\<exists>is_valid error. validate_file dec name node = Inr (is_valid, error)"
    by auto
next
  fix e assume "validate_file_body dec name node = Inl e"
  then show "validate_file dec name node = Inr (False, Some (ValidationError e))"
    by (simp add: validate_file_def try_except_def)
next
  fix e assume "validate_stl_format_body dec node = Inl e"
  then show "validate_stl_format dec node = Inr (False, Some (FailedToRead e))"
    by (simp add: validate_stl_format_def try_except_def)
next
  fix e assume "validate_binary_stl_body node = Inl e"
  then show "validate_binary_stl node = Inr (False, Some (BinaryValidationError e))"
    by (simp add: validate_binary_stl_def try_except_def)
next
  fix e assume "validate_ascii_stl_body dec node = Inl e"
  then show "validate_ascii_stl dec node = Inr (False, Some (AsciiValidationError e))"
    by (simp add: validate_ascii_stl_def try_except_def)
qed

text \<open>
  Witness for claim C9: a path whose metadata cannot be queried makes the \<^verbatim>\<open>try\<close> block
  of \<^verbatim>\<open>validate_file\<close> raise; an entry that cannot be opened makes the block of the
  format check raise. Both end as rejections.
\<close>

theorem validate_file_never_raises_witness:
  "validate_file_body decode_ascii ''part.stl'' (Inaccessible ''Permission denied'')
     = Inl ''Permission denied''
   \<and> validate_file decode_ascii ''part.stl'' (Inaccessible ''Permission denied'')
     = Inr (False, Some (ValidationError ''Permission denied''))
   \<and> validate_stl_format_body decode_ascii (Unreadable 100 ''Permission denied'')
     = Inl ''Permission denied''
   \<and> validate_stl_format decode_ascii (Unreadable 100 ''Permission denied'')
     = Inr (False, Some (FailedToRead ''Permission denied''))
   \<and> validate_file decode_ascii ''part.stl'' (Unreadable 100 ''Permission denied'')
     = Inr (False, Some (FailedToRead ''Permission denied''))"
proof -
  have b: "validate_file_body decode_ascii ''part.stl'' (Inaccessible ''Permission denied'')
            = Inl ''Permission denied''"
    by (simp add: validate_file_body_def)
  have f: "validate_stl_format_body decode_ascii (Unreadable 100 ''Permission denied'')
            = Inl ''Permission denied''"
    by (simp add: validate_stl_format_body_def)
  have s: "lower (path_suffix ''part.stl'') = ''.stl''"
    by (simp add: path_suffix_def lower_def lower_char_def Let_def)
  note t = validate_file_never_raises [of decode_ascii "''part.stl''" "Inaccessible ''Permission denied''"]
  note u = validate_file_never_raises [of decode_ascii "''part.stl''" "Unreadable 100 ''Permission denied''"]
  have v: "validate_stl_format decode_ascii (Unreadable 100 ''Permission denied'')
            = Inr (False, Some (FailedToRead ''Permission denied''))"
    using u f by blast
  have w: "validate_file decode_ascii ''part.stl'' (Unreadable 100 ''Permission denied'')
            = Inr (False, Some (FailedToRead ''Permission denied''))"
    using v s
    by (simp add: validate_file_def validate_file_body_def try_except_def
        MAX_FILE_SIZE_def MIN_FILE_SIZE_def)
  show ?thesis using t b f v w by blast
qed

text \<open>
  Claim C10. The format check reads only the leading bytes to choose its path: a readable
  file whose first five bytes are \<^verbatim>\<open>solid\<close> gets the verdict of the text rules on its
  decoded content, so the verdict is a function of the decoded text alone and the binary
  count field is never unpacked; every other readable file gets the verdict of the binary
  rules.
\<close>

theorem format_dispatch_by_leading_bytes:
  "(take 5 data = solid_bytes \<longrightarrow>
      validate_stl_format dec (Regular data) = Inr (validate_ascii_content (dec data))
      \<and> validate_stl_format dec (Regular data) = validate_ascii_stl dec (Regular data))
   \<and> (take 5 data \<noteq> solid_bytes \<longrightarrow>
      validate_stl_format dec (Regular data) = validate_binary_stl (Regular data))"
proof -
  have "length solid_bytes = 5"
    by (simp add: solid_bytes_def)
  then have five: "take (length solid_bytes) (take 80 data) = take 5 data"
    by simp
  have nr: "(case validate_binary_stl (Regular data) of Inl e \<Rightarrow> Inr (False, Some (FailedToRead e))
             | Inr v \<Rightarrow> Inr v) = validate_binary_stl (Regular data)"
    by (cases "validate_binary_stl_body (Regular data)")
       (simp_all add: validate_binary_stl_def try_except_def)
  show ?thesis
    unfolding validate_stl_format_def validate_stl_format_body_def try_except_def
      open_rb.simps sum.case Let_def five
    using nr
    by (simp add: validate_ascii_stl_def validate_ascii_stl_body_def open_text_def try_except_def)
qed

text \<open>
  Witness for claim C10: the size-exact binary file with a \<^verbatim>\<open>solid\<close> header is accepted
  by the binary rules, yet the format check hands it to the text rules, which reject it;
  a binary file with a zero header goes to the binary rules.
\<close>

theorem format_dispatch_by_leading_bytes_witness:
  "take 5 solid_headed_binary = solid_bytes
   \<and> validate_binary_stl (Regular solid_headed_binary) = Inr (True, None)
   \<and> validate_stl_format decode_ascii (Regular solid_headed_binary)
       = Inr (False, Some MustEndWithEndsolid)
   \<and> take 5 one_triangle_at_origin \<noteq> solid_bytes
   \<and> validate_stl_format decode_ascii (Regular one_triangle_at_origin) = Inr (True, None)"
proof -
  have p: "take 5 solid_headed_binary = solid_bytes"
    by (simp add: solid_headed_binary_def solid_bytes_def)
  have q: "take 5 one_triangle_at_origin \<noteq> solid_bytes"
  proof
    assume "take 5 one_triangle_at_origin = solid_bytes"
    then have "hd (take 5 one_triangle_at_origin) = hd solid_bytes"
      by (rule arg_cong)
    then show False
      by (simp add: one_triangle_at_origin_def solid_bytes_def)
  qed
  have bin: "validate_binary_stl (Regular solid_headed_binary) = Inr (True, None)"
    by (simp add: validate_binary_stl_def validate_binary_stl_body_def try_except_def Let_def
        solid_headed_binary_def solid_bytes_def unpack_u32_le_def triangle_coords_def
        float32_value_def upt_rec)
  have bin0: "validate_binary_stl (Regular one_triangle_at_origin) = Inr (True, None)"
    by (simp add: validate_binary_stl_def validate_binary_stl_body_def try_except_def Let_def
        one_triangle_at_origin_def unpack_u32_le_def triangle_coords_def
        float32_value_def upt_rec)
  have ascii: "validate_ascii_content (decode_ascii solid_headed_binary) = (False, Some MustEndWithEndsolid)"
    unfolding solid_headed_binary_def solid_bytes_def by code_simp
  show ?thesis
    using format_dispatch_by_leading_bytes [of solid_headed_binary decode_ascii]
      format_dispatch_by_leading_bytes [of one_triangle_at_origin decode_ascii]
      p q bin bin0 ascii
    by simp
qed

subsection \<open>Workspace release\<close>







































subsection \<open>Engine timeout\<close>

lemma starts_none_then_do:
  assumes "starts_at_most 0 m" and "\<And>a. starts_at_most k (f a)"
  shows "starts_at_most k (then_do m f)"
unfolding starts_at_most_def
proof
  fix w
  obtain r w1 where m: "m w = (r, w1)" by (cases "m w")
  with assms(1) have e1: "engine_runs w1 = engine_runs w"
    by (auto simp: starts_at_most_def dest!: spec [of _ w])
  show "\<exists>new. engine_runs (snd (then_do m f w)) = engine_runs w @ new \<and> length new \<le> k"
  proof (cases r)
    case (Inl e)
    then show ?thesis using m e1 by (simp add: then_do_def)
  next
    case (Inr a)
    then have "then_do m f w = f a w1" using m by (simp add: then_do_def)
    then show ?thesis using assms(2) [of a] e1 by (auto simp: starts_at_most_def dest!: spec [of _ w1])
  qed
qed

lemma starts_then_none:
  assumes "starts_at_most k m" and "\<And>a. starts_at_most 0 (f a)"
  shows "starts_at_most k (then_do m f)"
unfolding starts_at_most_def
proof
  fix w
  obtain r w1 where m: "m w = (r, w1)" by (cases "m w")
  with assms(1) obtain new where e1: "engine_runs w1 = engine_runs w @ new" "length new \<le> k"
    by (auto simp: starts_at_most_def dest!: spec [of _ w])
  show "\<exists>new. engine_runs (snd (then_do m f w)) = engine_runs w @ new \<and> length new \<le> k"
  proof (cases r)
    case (Inl e)
    then show ?thesis using m e1 by (simp add: then_do_def)
  next
    case (Inr a)
    then have "then_do m f w = f a w1" using m by (simp add: then_do_def)
    moreover from assms(2) [of a] have "engine_runs (snd (f a w1)) = engine_runs w1"
      by (auto simp: starts_at_most_def dest!: spec [of _ w1])
    ultimately show ?thesis using e1 by simp
  qed
qed

lemma starts_none_raise: "starts_at_most k (raise e)"
  by (simp add: starts_at_most_def raise_def)

lemma starts_none_return: "starts_at_most k (return a)"
  by (simp add: starts_at_most_def return_def)

lemma starts_none_may_fail: "starts_at_most k (may_fail err)"
  by (cases err) (simp_all add: may_fail_def starts_none_raise starts_none_return)

lemma starts_none_update: "starts_at_most k (update_state ev p msg)"
  by (auto simp: starts_at_most_def update_state_def split: option.splits)

lemma starts_none_rmtree: "starts_at_most k (rmtree jid)"
  by (simp add: starts_at_most_def rmtree_def)

lemma starts_none_prepare: "starts_at_most 0 (prepare_analysis_workspace ev jid)"
  unfolding prepare_analysis_workspace_def
  by (intro starts_none_then_do starts_none_may_fail) (simp add: starts_at_most_def)

lemma starts_if: "starts_at_most k a \<Longrightarrow> starts_at_most k b \<Longrightarrow> starts_at_most k (if c then a else b)"
  by simp

lemma starts_case_prod:
  "(\<And>x y. starts_at_most k (f x y)) \<Longrightarrow> starts_at_most k (case p of (x, y) \<Rightarrow> f x y)"
  by (cases p) simp

lemma subprocess_run_starts:
  "\<exists>new. engine_runs (snd (subprocess_run t eng w)) = engine_runs w @ new \<and> length new \<le> 1"
  by (auto simp: subprocess_run_def split: option.splits)

lemma run_slicer_starts: "starts_at_most 1 (run_slicer eng)"
  unfolding starts_at_most_def
proof
  fix w
  obtain x w1 where s: "subprocess_run 300 eng w = (x, w1)" by (cases "subprocess_run 300 eng w")
  have "snd (run_slicer eng w) = w1"
    using s by (auto simp: run_slicer_def run_slicer_body_def split: sum.splits raised.splits prod.splits)
  with subprocess_run_starts [of 300 eng w] s
  show "\<exists>new. engine_runs (snd (run_slicer eng w)) = engine_runs w @ new \<and> length new \<le> 1"
    by simp
qed

lemma slicer_starts: "starts_at_most 1 (slicer_analyze_stl eng)"
proof (cases "tempdir_error eng")
  case (Some e)
  then show ?thesis by (simp add: starts_at_most_def slicer_analyze_stl_def)
next
  case None
  let ?inner = "then_do (may_fail (setup_error eng)) (\<lambda>_. then_do (run_slicer eng) (\<lambda>_. return (metrics eng)))"
  have inner: "starts_at_most 1 ?inner"
    by (intro starts_none_then_do starts_then_none starts_none_may_fail run_slicer_starts
          starts_none_return)
  show ?thesis
    unfolding starts_at_most_def
  proof
    fix w :: world
    let ?w1 = "w\<lparr>live_tempdirs := live_tempdirs w + 1\<rparr>"
    obtain x w2 where i: "?inner ?w1 = (x, w2)" by (cases "?inner ?w1")
    from inner obtain new where "engine_runs w2 = engine_runs ?w1 @ new" "length new \<le> 1"
      using i by (auto simp: starts_at_most_def dest!: spec [of _ ?w1])
    moreover have "engine_runs (snd (slicer_analyze_stl eng w)) = engine_runs w2"
      using None i by (cases x) (simp_all add: slicer_analyze_stl_def)
    ultimately show "\<exists>new. engine_runs (snd (slicer_analyze_stl eng w)) = engine_runs w @ new \<and> length new \<le> 1"
      by simp
  qed
qed

lemma task_after_validation_starts: "starts_at_most 1 (task_after_validation ev jid)"
proof -
  have rest: "starts_at_most 0
     (then_do (update_state ev 80 ''Saving analysis results...'') (\<lambda>_.
      then_do (may_fail (commit_error ev)) (\<lambda>_.
      then_do (\<lambda>w. (Inr (), w\<lparr>saved_results := saved_results w @ [new_result_id ev]\<rparr>)) (\<lambda>_.
      then_do (rmtree jid) (\<lambda>_.
      then_do (update_state ev 100 ''Analysis completed'') (\<lambda>_.
      return (new_result_id ev)))))))"
    by (intro starts_none_then_do starts_none_update starts_none_may_fail starts_none_rmtree
          starts_none_return)
       (simp add: starts_at_most_def)
  show ?thesis
    unfolding task_after_validation_def
    apply (rule starts_none_then_do [OF starts_none_update])
    apply (rule starts_none_then_do [OF starts_none_prepare])
    apply (rule starts_none_then_do [OF starts_none_update])
    apply (rule starts_then_none [OF slicer_starts])
    apply (rule rest)
    done
qed

lemma task_body_starts: "starts_at_most 1 (task_body ev jid fid)"
proof -
  have tws: "starts_at_most 1 (task_with_service ev jid p)" for p
    unfolding task_with_service_def
    by (intro starts_none_then_do starts_none_update starts_if starts_case_prod
          starts_none_raise starts_none_return task_after_validation_starts)
  have tail: "starts_at_most 1
                (case file_record of
                   None \<Rightarrow> raise (''File '' @ fid @ '' not found'')
                 | Some storage_path \<Rightarrow>
                     then_do (may_fail (service_error ev)) (\<lambda>_.
                     then_do (\<lambda>w. (Inr (), w\<lparr>service_bound := True\<rparr>)) (\<lambda>_.
                     task_with_service ev jid storage_path)))" for file_record
  proof (cases file_record)
    case None
    then show ?thesis by (simp add: starts_none_raise)
  next
    case (Some p)
    have "starts_at_most 1
            (then_do (may_fail (service_error ev)) (\<lambda>_.
             then_do (\<lambda>w. (Inr (), w\<lparr>service_bound := True\<rparr>)) (\<lambda>_.
             task_with_service ev jid p)))"
      by (intro starts_none_then_do starts_none_may_fail tws) (simp add: starts_at_most_def)
    with Some show ?thesis by simp
  qed
  show ?thesis
    unfolding task_body_def
    by (intro starts_none_then_do starts_none_update starts_none_may_fail tail)
       (simp_all add: starts_at_most_def)
qed

lemma run_job_starts:
  "\<exists>new. engine_runs (run_job ev jid fid w) = engine_runs w @ new \<and> length new \<le> 1"
proof -
  let ?w0 = "w\<lparr>states := states w @ [STARTED]\<rparr>"
  let ?w1 = "?w0\<lparr>service_bound := False, db_bound := False\<rparr>"
  obtain x w2 where b: "task_body ev jid fid ?w1 = (x, w2)" by (cases "task_body ev jid fid ?w1")
  from task_body_starts [of ev jid fid] b
  obtain new where n: "engine_runs w2 = engine_runs w @ new" "length new \<le> 1"
    by (auto simp: starts_at_most_def dest!: spec [of _ ?w1])
  have "engine_runs (run_job ev jid fid w) = engine_runs w2"
    using b
    by (cases x)
       (auto simp: run_job_def analyze_stl_task_def Let_def cleanup_on_error_def rmtree_def
             split: if_splits)
  with n show ?thesis by simp
qed

lemma run_slicer_timeout:
  assumes "exceeds_timeout 300 eng"
  shows "run_slicer eng w
         = (Inl ''PrusaSlicer analysis timed out'', w\<lparr>engine_runs := engine_runs w @ [Killed]\<rparr>)"
  using assms
  by (auto simp: exceeds_timeout_def run_slicer_def run_slicer_body_def subprocess_run_def
      split: option.splits)

lemma run_slicer_other_errors:
  assumes "\<not> exceeds_timeout 300 eng"
  shows "fst (run_slicer eng w) \<noteq> Inl ''PrusaSlicer analysis timed out''"
  using assms
  by (auto simp: exceeds_timeout_def run_slicer_def run_slicer_body_def subprocess_run_def
      split: option.splits)

lemma run_job_timeout:
  assumes "reaches_engine ev" and "exceeds_timeout 300 (slicer ev)"
  shows "states (run_job ev jid fid w)
           = states w @ [STARTED,
                PROGRESS (Some 10) (Some ''Initializing analysis...''),
                PROGRESS (Some 20) (Some ''Validating STL file...''),
                PROGRESS (Some 30) (Some ''Preparing analysis workspace...''),
                PROGRESS (Some 50) (Some ''Running PrusaSlicer analysis...''),
                FAILURE ''Analysis failed: Slicer analysis error: PrusaSlicer analysis timed out'']
         \<and> engine_runs (run_job ev jid fid w) = engine_runs w @ [Killed]
         \<and> saved_results (run_job ev jid fid w) = saved_results w"
proof -
  from assms(1) obtain p where q: "file_query ev = Inr (Some p)"
    by (auto simp: reaches_engine_def reaches_validation_def split: sum.splits option.splits)
  obtain ok msg where v: "validation ev = (ok, msg)" by (cases "validation ev")
  with assms(1) have ok: "ok" by (simp add: reaches_engine_def)
  have steps: "update_error ev 10 = None" "get_db_error ev = None" "service_error ev = None"
    "update_error ev 20 = None" "stored_file_exists ev" "update_error ev 30 = None"
    "mkdir_error ev = None" "copy_error ev = None" "update_error ev 50 = None"
    "tempdir_error (slicer ev) = None" "setup_error (slicer ev) = None"
    using assms(1) by (simp_all add: reaches_engine_def reaches_validation_def)
  have sl: "slicer_analyze_stl (slicer ev) w1
            = (Inl ''Slicer analysis error: PrusaSlicer analysis timed out'',
               w1\<lparr>engine_runs := engine_runs w1 @ [Killed]\<rparr>)" for w1
    using steps(10,11) run_slicer_timeout [OF assms(2)]
    by (simp add: slicer_analyze_stl_def then_do_def may_fail_def return_def)
  show ?thesis
    using q v ok steps(1-9)
    by (simp add: run_job_def analyze_stl_task_def task_body_def task_with_service_def
        task_after_validation_def prepare_analysis_workspace_def sl update_state_def
        rmtree_def cleanup_on_error_def then_do_def raise_def return_def may_fail_def)
qed

text \<open>
  Claim C6. An engine subprocess that has not exited after 300 seconds is killed and
  \<^verbatim>\<open>_run_slicer\<close> raises "PrusaSlicer analysis timed out"; no run that does not time
  out (a subprocess that cannot be started, a nonzero exit code with any diagnostic text,
  a missing output file, or success) yields that text, so the timeout is told apart from
  the engine error and the missing output. When the task gets as far as the engine, the
  job ends in \<open>FAILURE\<close> with that text behind the prefixes of the runner and the task,
  nothing is saved, and exactly one subprocess was started; no delivery, whatever
  happens, starts more than one.
\<close>

theorem engine_timeout_fails_job_distinctly:
  "(exceeds_timeout 300 eng \<longrightarrow>
      run_slicer eng w
        = (Inl ''PrusaSlicer analysis timed out'', w\<lparr>engine_runs := engine_runs w @ [Killed]\<rparr>))
   \<and> (\<not> exceeds_timeout 300 eng \<longrightarrow>
        fst (run_slicer eng w) \<noteq> Inl ''PrusaSlicer analysis timed out'')
   \<and> (reaches_engine ev \<and> exceeds_timeout 300 (slicer ev) \<longrightarrow>
        states (run_job ev jid fid w)
           = states w @ [STARTED,
                PROGRESS (Some 10) (Some ''Initializing analysis...''),
                PROGRESS (Some 20) (Some ''Validating STL file...''),
                PROGRESS (Some 30) (Some ''Preparing analysis workspace...''),
                PROGRESS (Some 50) (Some ''Running PrusaSlicer analysis...''),
                FAILURE ''Analysis failed: Slicer analysis error: PrusaSlicer analysis timed out'']
        \<and> engine_runs (run_job ev jid fid w) = engine_runs w @ [Killed]
        \<and> saved_results (run_job ev jid fid w) = saved_results w)
   \<and> (\<exists>new. engine_runs (run_job ev jid fid w) = engine_runs w @ new \<and> length new \<le> 1)"
  using run_slicer_timeout [of eng w] run_slicer_other_errors [of eng w]
    run_job_timeout [of ev jid fid w] run_job_starts [of ev jid fid w]
  by blast

text \<open>
  Witness for claim C6: the engine needing 301 seconds is killed and its job fails with
  the timeout text; the engine needing 42 seconds but exiting with code 1, and the one
  leaving no output, fail with other texts.
\<close>

theorem engine_timeout_fails_job_distinctly_witness:
  "exceeds_timeout 300 slow_engine
   \<and> reaches_engine (smooth_env slow_engine)
   \<and> run_slicer slow_engine idle_world
       = (Inl ''PrusaSlicer analysis timed out'', idle_world\<lparr>engine_runs := [Killed]\<rparr>)
   \<and> last (states (run_job (smooth_env slow_engine) ''job-1'' ''file-1'' idle_world))
       = FAILURE ''Analysis failed: Slicer analysis error: PrusaSlicer analysis timed out''
   \<and> engine_runs (run_job (smooth_env slow_engine) ''job-1'' ''file-1'' idle_world) = [Killed]
   \<and> \<not> exceeds_timeout 300 (quick_engine\<lparr>returncode := 1, stderr := ''bad mesh''\<rparr>)
   \<and> fst (run_slicer (quick_engine\<lparr>returncode := 1, stderr := ''bad mesh''\<rparr>) idle_world)
       = Inl ''Docker execution failed: PrusaSlicer failed: bad mesh''
   \<and> fst (run_slicer (quick_engine\<lparr>writes_output := False\<rparr>) idle_world)
       = Inl ''Docker execution failed: PrusaSlicer did not generate output file''"
proof -
  have a: "exceeds_timeout 300 slow_engine"
    by (simp add: exceeds_timeout_def slow_engine_def quick_engine_def)
  have b: "reaches_engine (smooth_env slow_engine)"
    by (simp add: reaches_engine_def reaches_validation_def smooth_env_def slow_engine_def
        quick_engine_def)
  have s: "slicer (smooth_env slow_engine) = slow_engine"
    by (simp add: smooth_env_def)
  have c: "\<not> exceeds_timeout 300 (quick_engine\<lparr>returncode := 1, stderr := ''bad mesh''\<rparr>)"
    by (simp add: exceeds_timeout_def quick_engine_def)
  have d: "fst (run_slicer (quick_engine\<lparr>returncode := 1, stderr := ''bad mesh''\<rparr>) idle_world)
       = Inl ''Docker execution failed: PrusaSlicer failed: bad mesh''"
    by (simp add: run_slicer_def run_slicer_body_def subprocess_run_def quick_engine_def)
  have e: "fst (run_slicer (quick_engine\<lparr>writes_output := False\<rparr>) idle_world)
       = Inl ''Docker execution failed: PrusaSlicer did not generate output file''"
    by (simp add: run_slicer_def run_slicer_body_def subprocess_run_def quick_engine_def)
  have i: "engine_runs idle_world = []" "states idle_world = [PENDING]"
    by (simp_all add: idle_world_def)
  note t = engine_timeout_fails_job_distinctly
             [of slow_engine idle_world "smooth_env slow_engine" "''job-1''" "''file-1''"]
  from t a have r: "run_slicer slow_engine idle_world
       = (Inl ''PrusaSlicer analysis timed out'', idle_world\<lparr>engine_runs := [Killed]\<rparr>)"
    by (simp add: i)
  from t a b s have j: "last (states (run_job (smooth_env slow_engine) ''job-1'' ''file-1'' idle_world))
       = FAILURE ''Analysis failed: Slicer analysis error: PrusaSlicer analysis timed out''"
    "engine_runs (run_job (smooth_env slow_engine) ''job-1'' ''file-1'' idle_world) = [Killed]"
    by (simp_all add: i)
  show ?thesis using a b r j c d e by blast
qed

subsection \<open>Reported progress\<close>


























end
